theory Spec2Isabelle
  imports Main
begin

section \<open>OptiOR: slot and surgeon availability of the scheduling dialog\<close>

text \<open>
  The development embeds the availability logic of the component \<open>ScheduleModal\<close>
  (file \<open>web-app/components/types.ts\<close>): the room check \<open>isSlotAvailable\<close>, the
  surgeon filter \<open>getAvailableDoctors\<close>, the slot grid of the render function and the
  submit handler \<open>onSubmit\<close>.

  Modelling conventions.
  \<^item> A JavaScript \<open>Date\<close> is its time value, an integer number of milliseconds, read on
    the local wall-clock time line of a zone with a fixed offset (no daylight-saving
    change within the day), so that \<open>setHours\<close> is arithmetic on that number. Invalid
    dates are outside the model: \<open>start\<close> and \<open>end\<close> of a case are the values that
    \<open>new Date(c.start)\<close> and \<open>new Date(c.end)\<close> give.
  \<^item> A JavaScript \<open>number\<close> holding minutes, an hour or an identifier is an \<open>int\<close>.
  \<^item> \<open>null\<close>, \<open>undefined\<close> and a missing optional field are \<open>None\<close>. The field \<open>end\<close>
    of a case is tested for truthiness by the source, so an empty string there is \<open>None\<close>
    as well.
  \<^item> The roster \<open>allDoctors\<close> is a plain object: its own entries are a partial map, and
    the read \<open>allDoctors[service]\<close> of a name without an own entry falls through to the
    members that every plain object inherits from \<open>Object.prototype\<close>.
\<close>

subsection \<open>Data\<close>

type_synonym date = int

record extendedProps =
  or_suite :: string
  service :: string
  booked_time :: int
  actual_duration :: "int option"
  patient_name :: string
  is_prediction :: bool
  doctor_name :: "string option"

text \<open>Interface \<open>SurgeryCase\<close>; the fields \<open>id\<close> and \<open>end\<close> carry a suffix.\<close>

record SurgeryCase =
  id_case :: int
  title :: string
  start :: date
  end_case :: "date option"
  extendedProps :: extendedProps

text \<open>The props of the component that the three closures read.\<close>

record ScheduleModalProps =
  selectedDate :: date
  existingAndAllCases :: "SurgeryCase list"
  editCase :: "SurgeryCase option"

text \<open>The state hook \<open>selectedSlot\<close>: \<open>{ or: string, hour: number } | null\<close>.\<close>

record slot =
  slot_or :: string
  slot_hour :: int

text \<open>The component state: the hooks \<open>prediction\<close>, \<open>selectedSlot\<close>, \<open>allDoctors\<close>.\<close>

record ModalState =
  prediction :: "int option"
  selectedSlot :: "slot option"
  allDoctors :: "string \<rightharpoonup> string list"

text \<open>The form values (\<open>formSchema\<close>) that the handlers read.\<close>

record FormValues =
  f_patient_name :: string
  f_service :: string
  f_booked_time :: int
  f_doctor_name :: "string option"

text \<open>The payload that \<open>onSubmit\<close> builds.\<close>

record payload =
  p_date :: date
  p_service :: string
  p_booked_time :: int
  p_patient_name :: string
  p_or_suite :: string
  p_duration :: int
  p_wheels_in :: date
  p_wheels_out :: date
  p_actual_duration :: int
  p_doctor_name :: "string option"

text \<open>
  What a run of \<open>onSubmit\<close> does: it stops with an error toast before any request, or
  it sends one request to the API (\<open>api.updateCase\<close> or \<open>api.createCase\<close>).
\<close>

datatype submission =
  Rejected string
  | UpdateCase int payload
  | CreateCase payload

subsection \<open>Library functions and constants\<close>

text \<open>\<open>addMinutes\<close> of date-fns: the date plus \<open>amount\<close> times 60000 milliseconds.\<close>

definition addMinutes :: "date \<Rightarrow> int \<Rightarrow> date" where
  "addMinutes d amount = d + amount * 60000"

text \<open>
  \<open>d.setHours(hour, 0, 0, 0)\<close>: the local midnight of the day of \<open>d\<close> plus \<open>hour\<close> hours.
\<close>

definition setHours :: "date \<Rightarrow> int \<Rightarrow> date" where
  "setHours d hour = d - d mod 86400000 + hour * 3600000"

text \<open>Truthiness of a \<open>number | null\<close>: neither \<open>null\<close> nor \<open>0\<close>.\<close>

definition truthy :: "int option \<Rightarrow> bool" where
  "truthy x = (case x of None \<Rightarrow> False | Some n \<Rightarrow> n \<noteq> 0)"

definition OR_SUITES :: "string list" where
  "OR_SUITES = [''OR-1'', ''OR-2'', ''OR-3'', ''OR-4'']"

text \<open>\<open>Array.from({ length: 11 }, (_, i) => 8 + i)\<close>\<close>

definition TIME_SLOTS :: "int list" where
  "TIME_SLOTS = map (\<lambda>i. 8 + int i) [0..<11]"

subsection \<open>The interval of an existing case\<close>

text \<open>\<open>const cStart = new Date(c.start)\<close>\<close>

definition cStart :: "SurgeryCase \<Rightarrow> date" where
  "cStart c = start c"

text \<open>
  \<open>const cEnd = c.end ? new Date(c.end) : addMinutes(cStart, c.extendedProps.actual_duration || 60)\<close>
\<close>

definition cEnd :: "SurgeryCase \<Rightarrow> date" where
  "cEnd c =
     (case end_case c of
        Some e \<Rightarrow> e
      | None \<Rightarrow>
          addMinutes (cStart c)
            (case actual_duration (extendedProps c) of
               None \<Rightarrow> 60
             | Some n \<Rightarrow> if n = 0 then 60 else n))"

text \<open>\<open>editCase && c.id === editCase.id\<close>\<close>

definition isSelf :: "SurgeryCase option \<Rightarrow> SurgeryCase \<Rightarrow> bool" where
  "isSelf ec c = (case ec of None \<Rightarrow> False | Some e \<Rightarrow> id_case c = id_case e)"

subsection \<open>Room availability\<close>

text \<open>The callback given to \<open>existingAndAllCases.some\<close> in \<open>isSlotAvailable\<close>.\<close>

definition roomConflict ::
  "SurgeryCase option \<Rightarrow> string \<Rightarrow> date \<Rightarrow> date \<Rightarrow> SurgeryCase \<Rightarrow> bool" where
  "roomConflict ec suite slotStart slotEnd c =
     (if isSelf ec c then False
      else if or_suite (extendedProps c) \<noteq> suite then False
      else slotStart < cEnd c \<and> slotEnd > cStart c)"

text \<open>
  The returned expression of \<open>isSlotAvailable\<close>, as a function of the two local
  constants \<open>slotStart\<close> and \<open>slotEnd\<close>.
\<close>

definition slotFree ::
  "ScheduleModalProps \<Rightarrow> string \<Rightarrow> date \<Rightarrow> date \<Rightarrow> bool" where
  "slotFree props suite slotStart slotEnd =
     (\<not> list_ex (roomConflict (editCase props) suite slotStart slotEnd)
          (existingAndAllCases props))"

definition isSlotAvailable ::
  "ScheduleModalProps \<Rightarrow> string \<Rightarrow> int \<Rightarrow> int \<Rightarrow> bool" where
  "isSlotAvailable props suite hour duration =
     (let slotStart = setHours (selectedDate props) hour;
          slotEnd = addMinutes slotStart duration
      in slotFree props suite slotStart slotEnd)"

subsection \<open>Surgeon availability\<close>

text \<open>The callback given to \<open>existingAndAllCases.some\<close> in \<open>getAvailableDoctors\<close>.\<close>

definition doctorConflict ::
  "SurgeryCase option \<Rightarrow> string \<Rightarrow> date \<Rightarrow> date \<Rightarrow> SurgeryCase \<Rightarrow> bool" where
  "doctorConflict ec doc slotStart slotEnd c =
     (if isSelf ec c then False
      else if doctor_name (extendedProps c) \<noteq> Some doc then False
      else slotStart < cEnd c \<and> slotEnd > cStart c)"

text \<open>The local constant \<open>isBusy\<close> of the filter callback.\<close>

definition isBusy ::
  "ScheduleModalProps \<Rightarrow> string \<Rightarrow> date \<Rightarrow> date \<Rightarrow> bool" where
  "isBusy props doc slotStart slotEnd =
     list_ex (doctorConflict (editCase props) doc slotStart slotEnd)
       (existingAndAllCases props)"

text \<open>
  The names that a plain object inherits from \<open>Object.prototype\<close>. The value read
  under each of them is a function, or under \<open>__proto__\<close> the prototype object itself:
  truthy, and without a member \<open>filter\<close>.
\<close>

definition objectPrototypeMembers :: "string list" where
  "objectPrototypeMembers =
     [''constructor'', ''hasOwnProperty'', ''isPrototypeOf'', ''propertyIsEnumerable'',
      ''toLocaleString'', ''toString'', ''valueOf'', ''__proto__'',
      ''__defineGetter__'', ''__defineSetter__'', ''__lookupGetter__'',
      ''__lookupSetter__'']"

text \<open>
  What \<open>allDoctors[service]\<close> can hold and \<open>getAvailableDoctors\<close> can return: a list of
  surgeon names, or the inherited member of the given name.
\<close>

datatype rosterValue =
  Doctors "string list"
  | ProtoMember string

text \<open>The exception of \<open>doctors.filter(...)\<close> on a value that has no \<open>filter\<close>.\<close>

datatype error = TypeError

text \<open>
  The property read \<open>allDoctors[service]\<close>: the own entry if there is one, else the
  inherited member of that name, else \<open>undefined\<close> (\<open>None\<close>).
\<close>

definition readRoster :: "(string \<rightharpoonup> string list) \<Rightarrow> string \<Rightarrow> rosterValue option" where
  "readRoster roster svc =
     (case roster svc of
        Some ds \<Rightarrow> Some (Doctors ds)
      | None \<Rightarrow> if svc \<in> set objectPrototypeMembers then Some (ProtoMember svc) else None)"

text \<open>
  \<open>getAvailableDoctors\<close>; the argument \<open>svc\<close> is the watched form field \<open>service\<close>, which
  is falsy when it is the empty string. Every value that \<open>readRoster\<close> gives is truthy, so
  the guard \<open>!allDoctors[service]\<close> holds exactly when the read is \<open>undefined\<close>. The call
  \<open>doctors.filter\<close> throws on an inherited member.
\<close>

definition getAvailableDoctors ::
  "ScheduleModalProps \<Rightarrow> ModalState \<Rightarrow> string \<Rightarrow> error + rosterValue" where
  "getAvailableDoctors props st svc =
     (if svc = [] then Inr (Doctors [])
      else case readRoster (allDoctors st) svc of
        None \<Rightarrow> Inr (Doctors [])
      | Some doctors \<Rightarrow>
          (case selectedSlot st of
             None \<Rightarrow> Inr doctors
           | Some sel \<Rightarrow>
               if \<not> truthy (prediction st) then Inr doctors
               else
                 (let slotStart = setHours (selectedDate props) (slot_hour sel);
                      slotEnd = addMinutes slotStart (the (prediction st))
                  in case doctors of
                       Doctors ds \<Rightarrow>
                         Inr (Doctors (filter (\<lambda>doc. \<not> isBusy props doc slotStart slotEnd) ds))
                     | ProtoMember m \<Rightarrow> Inl TypeError)))"

subsection \<open>The slot grid of the render function\<close>

text \<open>
  The nested \<open>OR_SUITES.map\<close> / \<open>TIME_SLOTS.map\<close>: for each suite the row of its
  buttons, a button being the suite, the hour and \<open>isAvail\<close> (the button is disabled
  when \<open>isAvail\<close> is false).
\<close>

definition slotButtons ::
  "ScheduleModalProps \<Rightarrow> int \<Rightarrow> (string \<times> int \<times> bool) list list" where
  "slotButtons props duration =
     map (\<lambda>suite. map (\<lambda>hour. (suite, hour, isSlotAvailable props suite hour duration))
                     TIME_SLOTS)
       OR_SUITES"

text \<open>
  The panel \<open>Select OR Slot\<close>: a hint and no button while \<open>prediction\<close> is falsy, the
  grid otherwise.
\<close>

definition slotPanel ::
  "ScheduleModalProps \<Rightarrow> ModalState \<Rightarrow> (string \<times> int \<times> bool) list list option" where
  "slotPanel props st =
     (if \<not> truthy (prediction st) then None
      else Some (slotButtons props (the (prediction st))))"

subsection \<open>Submission\<close>

text \<open>
  \<open>onSubmit\<close>, up to the request it sends. The handler reads \<open>selectedSlot\<close>,
  \<open>prediction\<close>, \<open>selectedDate\<close> and \<open>editCase\<close>; it does not read
  \<open>existingAndAllCases\<close>.
\<close>

definition onSubmit ::
  "ScheduleModalProps \<Rightarrow> ModalState \<Rightarrow> FormValues \<Rightarrow> submission" where
  "onSubmit props st vals =
     (case selectedSlot st of
        None \<Rightarrow> Rejected ''Please select a time slot after getting prediction.''
      | Some sel \<Rightarrow>
          if \<not> truthy (prediction st)
          then Rejected ''Please select a time slot after getting prediction.''
          else
            (let pred = the (prediction st);
                 startTime = setHours (selectedDate props) (slot_hour sel);
                 endTime = addMinutes startTime pred;
                 pl = \<lparr> p_date = selectedDate props,
                        p_service = f_service vals,
                        p_booked_time = f_booked_time vals,
                        p_patient_name = f_patient_name vals,
                        p_or_suite = slot_or sel,
                        p_duration = pred,
                        p_wheels_in = startTime,
                        p_wheels_out = endTime,
                        p_actual_duration = pred,
                        p_doctor_name = f_doctor_name vals \<rparr>
             in case editCase props of
                  Some e \<Rightarrow> UpdateCase (id_case e) pl
                | None \<Rightarrow> CreateCase pl))"

text \<open>Whether a run of \<open>onSubmit\<close> reached the API.\<close>

fun sentToApi :: "submission \<Rightarrow> bool" where
  "sentToApi (Rejected msg) = False"
| "sentToApi (UpdateCase i pl) = True"
| "sentToApi (CreateCase pl) = True"

subsection \<open>The effective interval as the specification words it\<close>

text \<open>
  The end of the effective interval in the words of the specification: the stored end
  if present; otherwise the start plus \<open>max(durationMinutes, 1)\<close> minutes, and the start
  plus 60 minutes if \<open>durationMinutes\<close> is absent or non-positive.
\<close>

definition spec_effectiveEnd :: "SurgeryCase \<Rightarrow> date" where
  "spec_effectiveEnd c =
     (case end_case c of
        Some e \<Rightarrow> e
      | None \<Rightarrow>
          (case actual_duration (extendedProps c) of
             None \<Rightarrow> start c + 60 * 60000
           | Some n \<Rightarrow> if n \<le> 0 then start c + 60 * 60000
                       else start c + max n 1 * 60000))"

subsection \<open>Example data\<close>

text \<open>
  A case with the given identifier, suite, start, end, recorded duration and surgeon;
  the remaining fields play no part in the availability logic.
\<close>

definition exampleCase ::
  "int \<Rightarrow> string \<Rightarrow> date \<Rightarrow> date option \<Rightarrow> int option \<Rightarrow> string option \<Rightarrow> SurgeryCase" where
  "exampleCase i suite s e dur doc =
     \<lparr> id_case = i, title = ''case'', start = s, end_case = e,
       extendedProps = \<lparr> or_suite = suite, service = ''General'', booked_time = 60,
                         actual_duration = dur, patient_name = ''patient'',
                         is_prediction = False, doctor_name = doc \<rparr> \<rparr>"

text \<open>Clock times of the day that starts at time value 0, in milliseconds.\<close>

definition clock :: "int \<Rightarrow> int \<Rightarrow> date" where
  "clock h m = h * 3600000 + m * 60000"

text \<open>The props of a dialog opened in create mode on that day over the given cases.\<close>

definition exampleProps :: "SurgeryCase list \<Rightarrow> ScheduleModalProps" where
  "exampleProps cs = \<lparr> selectedDate = 0, existingAndAllCases = cs, editCase = None \<rparr>"

text \<open>The same dialog opened in edit mode on the case \<open>x\<close>.\<close>

definition exampleEditProps :: "SurgeryCase list \<Rightarrow> SurgeryCase \<Rightarrow> ScheduleModalProps" where
  "exampleEditProps cs x = \<lparr> selectedDate = 0, existingAndAllCases = cs, editCase = Some x \<rparr>"

definition exampleState ::
  "int option \<Rightarrow> slot option \<Rightarrow> (string \<rightharpoonup> string list) \<Rightarrow> ModalState" where
  "exampleState p sel roster = \<lparr> prediction = p, selectedSlot = sel, allDoctors = roster \<rparr>"

definition exampleValues :: FormValues where
  "exampleValues = \<lparr> f_patient_name = ''John Doe'', f_service = ''General'',
                      f_booked_time = 60, f_doctor_name = None \<rparr>"

section \<open>Properties\<close>

subsection \<open>Shared lemmas\<close>

lemma roomConflict_iff:
  "roomConflict ec r s e c =
     (\<not> isSelf ec c \<and> or_suite (extendedProps c) = r \<and> s < cEnd c \<and> cStart c < e)"
  by (auto simp: roomConflict_def)

lemma doctorConflict_iff:
  "doctorConflict ec doc s e c =
     (\<not> isSelf ec c \<and> doctor_name (extendedProps c) = Some doc \<and> s < cEnd c \<and> cStart c < e)"
  by (auto simp: doctorConflict_def)

lemma isSelf_iff:
  "isSelf ec c = (Some (id_case c) = map_option id_case ec)"
  by (cases ec) (auto simp: isSelf_def)

lemma slotFree_iff:
  "slotFree props r s e =
     (\<not> (\<exists>c \<in> set (existingAndAllCases props).
            \<not> isSelf (editCase props) c \<and> or_suite (extendedProps c) = r \<and>
            s < cEnd c \<and> cStart c < e))"
  by (simp add: slotFree_def list_ex_iff roomConflict_iff)

lemma isBusy_iff:
  "isBusy props doc s e =
     (\<exists>c \<in> set (existingAndAllCases props).
         \<not> isSelf (editCase props) c \<and> doctor_name (extendedProps c) = Some doc \<and>
         s < cEnd c \<and> cStart c < e)"
  by (simp add: isBusy_def list_ex_iff doctorConflict_iff)

lemma isSlotAvailable_slotFree:
  "isSlotAvailable props r hour d =
     slotFree props r (setHours (selectedDate props) hour)
       (addMinutes (setHours (selectedDate props) hour) d)"
  by (simp add: isSlotAvailable_def Let_def)

lemma list_ex_filter_self:
  "(\<And>c. \<not> keep c \<Longrightarrow> \<not> p c) \<Longrightarrow> list_ex p (filter keep cs) = list_ex p cs"
  by (induction cs) auto

lemma TIME_SLOTS_eq: "TIME_SLOTS = [8, 9, 10, 11, 12, 13, 14, 15, 16, 17, 18]"
  by (simp add: TIME_SLOTS_def upt_rec)

lemma concat_map_product:
  "concat (map (\<lambda>x. map (f x) ys) xs) = map (\<lambda>(x, y). f x y) (List.product xs ys)"
  by (induction xs) (simp_all add: comp_def)

lemmas ex_simps = exampleCase_def exampleProps_def exampleEditProps_def exampleState_def
  exampleValues_def clock_def

lemmas eval_simps = isSlotAvailable_def slotFree_def roomConflict_def isSelf_def cEnd_def
  cStart_def addMinutes_def setHours_def Let_def isBusy_def doctorConflict_def truthy_def

subsection \<open>Room availability\<close>

text \<open>
  Claim C1. For every room \<open>r\<close>, candidate start \<open>s\<close>, duration \<open>d\<close>, case list and
  optional edited case, the room check is false exactly when some case of the list has
  an identifier other than the excluded one, is booked in \<open>r\<close>, and satisfies
  \<open>s < cEnd c\<close> and \<open>s + d minutes > cStart c\<close>; \<open>isSlotAvailable\<close> is that check at the
  start \<open>selectedDate\<close> at \<open>hour\<close> o'clock. In particular the slot is free when the list
  is empty and when no case of the list is booked in \<open>r\<close>.
\<close>

theorem isSlotAvailable_false_iff_overlap:
  "(slotFree props r s (addMinutes s d) =
      (\<not> (\<exists>c \<in> set (existingAndAllCases props).
             Some (id_case c) \<noteq> map_option id_case (editCase props) \<and>
             or_suite (extendedProps c) = r \<and>
             s < cEnd c \<and> addMinutes s d > cStart c)))
   \<and> isSlotAvailable props r hour d =
       slotFree props r (setHours (selectedDate props) hour)
         (addMinutes (setHours (selectedDate props) hour) d)
   \<and> (existingAndAllCases props = [] \<longrightarrow> isSlotAvailable props r hour d)
   \<and> ((\<forall>c \<in> set (existingAndAllCases props). or_suite (extendedProps c) \<noteq> r)
        \<longrightarrow> isSlotAvailable props r hour d)"
proof -
  have a: "slotFree props r s (addMinutes s d) =
      (\<not> (\<exists>c \<in> set (existingAndAllCases props).
             Some (id_case c) \<noteq> map_option id_case (editCase props) \<and>
             or_suite (extendedProps c) = r \<and>
             s < cEnd c \<and> addMinutes s d > cStart c))"
    by (simp add: slotFree_iff isSelf_iff)
  have b: "existingAndAllCases props = [] \<longrightarrow> isSlotAvailable props r hour d"
    by (simp add: isSlotAvailable_slotFree slotFree_iff)
  have c: "(\<forall>c \<in> set (existingAndAllCases props). or_suite (extendedProps c) \<noteq> r)
        \<longrightarrow> isSlotAvailable props r hour d"
    by (auto simp: isSlotAvailable_slotFree slotFree_iff)
  show ?thesis using a b c isSlotAvailable_slotFree by blast
qed

theorem isSlotAvailable_false_iff_overlap_witness:
  "\<not> isSlotAvailable
       (exampleProps [exampleCase 1 ''OR-1'' (clock 9 0) (Some (clock 10 0)) None None])
       ''OR-1'' 9 60
   \<and> isSlotAvailable (exampleProps []) ''OR-1'' 9 60
   \<and> isSlotAvailable
       (exampleProps [exampleCase 1 ''OR-2'' (clock 9 0) (Some (clock 10 0)) None None])
       ''OR-1'' 9 60"
  using isSlotAvailable_false_iff_overlap
      [of "exampleProps [exampleCase 1 ''OR-1'' (clock 9 0) (Some (clock 10 0)) None None]"
          "''OR-1''" "clock 9 0" 60 9]
    isSlotAvailable_false_iff_overlap [of "exampleProps []" "''OR-1''" 0 60 9]
    isSlotAvailable_false_iff_overlap
      [of "exampleProps [exampleCase 1 ''OR-2'' (clock 9 0) (Some (clock 10 0)) None None]"
          "''OR-1''" 0 60 9]
  by (simp add: ex_simps eval_simps)

text \<open>
  Claim C2. Touching intervals are no conflict: a case whose start equals the end of
  the candidate, or whose end equals the start of the candidate, does not make the
  callback of the room check true, and a slot that every case of the room touches in
  this way is free. With one case from 09:00 to 10:00 in OR-1, the 08:00 slot and the
  10:00 slot of 60 minutes are available and the candidate 09:30 to 10:00 is not.
\<close>

theorem touching_intervals_free:
  "((addMinutes s d = cStart c \<or> s = cEnd c) \<longrightarrow>
      \<not> roomConflict ec r s (addMinutes s d) c)
   \<and> ((\<forall>c \<in> set (existingAndAllCases props).
          or_suite (extendedProps c) = r \<longrightarrow> addMinutes s d = cStart c \<or> s = cEnd c)
        \<longrightarrow> slotFree props r s (addMinutes s d))
   \<and> (or_suite (extendedProps c) = ''OR-1'' \<and> start c = setHours D 9 \<and>
        end_case c = Some (setHours D 10) \<and>
        props = \<lparr> selectedDate = D, existingAndAllCases = [c], editCase = None \<rparr>
        \<longrightarrow> isSlotAvailable props ''OR-1'' 8 60
            \<and> isSlotAvailable props ''OR-1'' 10 60
            \<and> \<not> slotFree props ''OR-1'' (addMinutes (setHours D 9) 30)
                  (addMinutes (addMinutes (setHours D 9) 30) 30))"
proof -
  have a: "(addMinutes s d = cStart c \<or> s = cEnd c) \<longrightarrow>
      \<not> roomConflict ec r s (addMinutes s d) c"
    by (auto simp: roomConflict_iff)
  have b: "(\<forall>c \<in> set (existingAndAllCases props).
          or_suite (extendedProps c) = r \<longrightarrow> addMinutes s d = cStart c \<or> s = cEnd c)
        \<longrightarrow> slotFree props r s (addMinutes s d)"
    by (auto simp: slotFree_iff)
  have c: "or_suite (extendedProps c) = ''OR-1'' \<and> start c = setHours D 9 \<and>
        end_case c = Some (setHours D 10) \<and>
        props = \<lparr> selectedDate = D, existingAndAllCases = [c], editCase = None \<rparr>
        \<longrightarrow> isSlotAvailable props ''OR-1'' 8 60
            \<and> isSlotAvailable props ''OR-1'' 10 60
            \<and> \<not> slotFree props ''OR-1'' (addMinutes (setHours D 9) 30)
                  (addMinutes (addMinutes (setHours D 9) 30) 30)"
    by (simp add: eval_simps)
  show ?thesis using a b c by blast
qed

theorem touching_intervals_free_witness:
  "isSlotAvailable
       (exampleProps [exampleCase 1 ''OR-1'' (clock 9 0) (Some (clock 10 0)) None None])
       ''OR-1'' 8 60
   \<and> isSlotAvailable
       (exampleProps [exampleCase 1 ''OR-1'' (clock 9 0) (Some (clock 10 0)) None None])
       ''OR-1'' 10 60
   \<and> \<not> slotFree
       (exampleProps [exampleCase 1 ''OR-1'' (clock 9 0) (Some (clock 10 0)) None None])
       ''OR-1'' (clock 9 30) (clock 10 0)
   \<and> \<not> roomConflict None ''OR-1'' (clock 8 0) (addMinutes (clock 8 0) 60)
         (exampleCase 1 ''OR-1'' (clock 9 0) (Some (clock 10 0)) None None)
   \<and> \<not> roomConflict None ''OR-1'' (clock 10 0) (addMinutes (clock 10 0) 60)
         (exampleCase 1 ''OR-1'' (clock 9 0) (Some (clock 10 0)) None None)
   \<and> slotFree
       (exampleProps [exampleCase 1 ''OR-1'' (clock 9 0) (Some (clock 10 0)) None None])
       ''OR-1'' (clock 10 0) (addMinutes (clock 10 0) 60)"
  using touching_intervals_free
      [of "clock 8 0" 60 "exampleCase 1 ''OR-1'' (clock 9 0) (Some (clock 10 0)) None None"
          None "''OR-1''"
          "exampleProps [exampleCase 1 ''OR-1'' (clock 9 0) (Some (clock 10 0)) None None]"
          0]
    touching_intervals_free
      [of "clock 10 0" 60 "exampleCase 1 ''OR-1'' (clock 9 0) (Some (clock 10 0)) None None"
          None "''OR-1''"
          "exampleProps [exampleCase 1 ''OR-1'' (clock 9 0) (Some (clock 10 0)) None None]"
          0]
  by (simp add: ex_simps cEnd_def cStart_def addMinutes_def setHours_def)

text \<open>
  Claim C4, as stated, fails: with a case from 09:00 to 11:00 in OR-1, the candidate at
  10:00 in OR-1 is reported occupied for the duration 0 and for the duration \<open>-30\<close>.
\<close>

theorem nonpositive_duration_counterexample:
  "\<not> isSlotAvailable
       (exampleProps [exampleCase 1 ''OR-1'' (clock 9 0) (Some (clock 11 0)) None None])
       ''OR-1'' 10 0
   \<and> \<not> isSlotAvailable
       (exampleProps [exampleCase 1 ''OR-1'' (clock 9 0) (Some (clock 11 0)) None None])
       ''OR-1'' 10 (- 30)"
  by (simp add: ex_simps eval_simps)

text \<open>
  Claim C4, amended. For a zero or negative duration the room check applies the same
  two comparisons as for any other: it is false exactly when some case of the room,
  other than the edited one, starts before the candidate's end \<open>s + d\<close> minutes (which
  is not after \<open>s\<close>) and ends after the candidate's start \<open>s\<close>. So the slot is free
  whenever every such case starts at or after \<open>s\<close> or ends at or before \<open>s\<close>, and it is
  not free regardless of the existing cases.
\<close>

theorem nonpositive_duration:
  "d \<le> 0 \<Longrightarrow>
     (isSlotAvailable props r hour d =
        (\<not> (\<exists>c \<in> set (existingAndAllCases props).
               Some (id_case c) \<noteq> map_option id_case (editCase props) \<and>
               or_suite (extendedProps c) = r \<and>
               cStart c < addMinutes (setHours (selectedDate props) hour) d \<and>
               addMinutes (setHours (selectedDate props) hour) d
                 \<le> setHours (selectedDate props) hour \<and>
               setHours (selectedDate props) hour < cEnd c)))
     \<and> ((\<forall>c \<in> set (existingAndAllCases props).
            Some (id_case c) \<noteq> map_option id_case (editCase props) \<and>
            or_suite (extendedProps c) = r \<longrightarrow>
            setHours (selectedDate props) hour \<le> cStart c \<or>
            cEnd c \<le> setHours (selectedDate props) hour)
          \<longrightarrow> isSlotAvailable props r hour d)"
proof -
  assume d: "d \<le> 0"
  have a: "isSlotAvailable props r hour d =
        (\<not> (\<exists>c \<in> set (existingAndAllCases props).
               Some (id_case c) \<noteq> map_option id_case (editCase props) \<and>
               or_suite (extendedProps c) = r \<and>
               cStart c < addMinutes (setHours (selectedDate props) hour) d \<and>
               addMinutes (setHours (selectedDate props) hour) d
                 \<le> setHours (selectedDate props) hour \<and>
               setHours (selectedDate props) hour < cEnd c))"
    using d by (auto simp: isSlotAvailable_slotFree slotFree_iff isSelf_iff addMinutes_def)
  have b: "(\<forall>c \<in> set (existingAndAllCases props).
            Some (id_case c) \<noteq> map_option id_case (editCase props) \<and>
            or_suite (extendedProps c) = r \<longrightarrow>
            setHours (selectedDate props) hour \<le> cStart c \<or>
            cEnd c \<le> setHours (selectedDate props) hour)
          \<longrightarrow> isSlotAvailable props r hour d"
    unfolding a using d by (fastforce simp: addMinutes_def)
  show ?thesis using a b by blast
qed

theorem nonpositive_duration_witness:
  "\<not> isSlotAvailable
       (exampleProps [exampleCase 1 ''OR-1'' (clock 9 0) (Some (clock 11 0)) None None])
       ''OR-1'' 10 (- 30)
   \<and> isSlotAvailable
       (exampleProps [exampleCase 1 ''OR-1'' (clock 9 0) (Some (clock 11 0)) None None])
       ''OR-1'' 11 (- 30)
   \<and> isSlotAvailable
       (exampleProps [exampleCase 1 ''OR-1'' (clock 9 0) (Some (clock 11 0)) None None])
       ''OR-1'' 9 0"
  using nonpositive_duration
      [of "- 30"
          "exampleProps [exampleCase 1 ''OR-1'' (clock 9 0) (Some (clock 11 0)) None None]"
          "''OR-1''" 10]
    nonpositive_duration
      [of "- 30"
          "exampleProps [exampleCase 1 ''OR-1'' (clock 9 0) (Some (clock 11 0)) None None]"
          "''OR-1''" 11]
    nonpositive_duration
      [of 0
          "exampleProps [exampleCase 1 ''OR-1'' (clock 9 0) (Some (clock 11 0)) None None]"
          "''OR-1''" 9]
  by (simp add: ex_simps cEnd_def cStart_def addMinutes_def setHours_def)

subsection \<open>The effective interval\<close>

text \<open>
  Claim C3, as stated, fails on a negative recorded duration: for a case without an end
  that starts at 09:00 with a duration of \<open>-30\<close>, the code ends the interval at 08:30,
  the specification at 10:00.
\<close>

theorem effective_end_counterexample:
  "cEnd (exampleCase 1 ''OR-1'' (clock 9 0) None (Some (- 30)) None)
     \<noteq> spec_effectiveEnd (exampleCase 1 ''OR-1'' (clock 9 0) None (Some (- 30)) None)
   \<and> cEnd (exampleCase 1 ''OR-1'' (clock 9 0) None (Some (- 30)) None) = clock 8 30
   \<and> spec_effectiveEnd (exampleCase 1 ''OR-1'' (clock 9 0) None (Some (- 30)) None)
       = clock 10 0"
  by (simp add: ex_simps cEnd_def cStart_def addMinutes_def spec_effectiveEnd_def)

text \<open>
  Claim C3, amended. The effective interval starts at the start of the case and ends at
  its end when an end is present. When the end is absent and the recorded duration is
  not zero, the end is the start plus that duration in minutes (for a positive duration
  this is \<open>max(duration, 1)\<close>; a negative one is used as it is); when the duration is
  absent or zero the end is the start plus 60 minutes. The code agrees with the
  specification on every case that has an end or no negative duration.
\<close>

theorem effective_interval:
  "cStart c = start c
   \<and> (end_case c = Some e \<longrightarrow> cEnd c = e)
   \<and> (end_case c = None \<and> actual_duration (extendedProps c) = Some n \<and> n \<noteq> 0
        \<longrightarrow> cEnd c = start c + n * 60000)
   \<and> (end_case c = None \<and> actual_duration (extendedProps c) = Some n \<and> 0 < n
        \<longrightarrow> cEnd c = start c + max n 1 * 60000)
   \<and> (end_case c = None \<and>
        (actual_duration (extendedProps c) = None \<or> actual_duration (extendedProps c) = Some 0)
        \<longrightarrow> cEnd c = start c + 60 * 60000)
   \<and> ((\<forall>n. actual_duration (extendedProps c) = Some n \<longrightarrow> 0 \<le> n) \<or> end_case c \<noteq> None
        \<longrightarrow> cEnd c = spec_effectiveEnd c)"
  by (auto simp: cEnd_def cStart_def addMinutes_def spec_effectiveEnd_def max_def
      split: option.splits)

theorem effective_interval_witness:
  "cEnd (exampleCase 1 ''OR-1'' (clock 9 0) (Some (clock 10 0)) None None) = clock 10 0
   \<and> cEnd (exampleCase 1 ''OR-1'' (clock 9 0) None (Some 45) None) = clock 9 45
   \<and> cEnd (exampleCase 1 ''OR-1'' (clock 9 0) None (Some (- 30)) None) = clock 8 30
   \<and> cEnd (exampleCase 1 ''OR-1'' (clock 9 0) None None None) = clock 10 0
   \<and> cEnd (exampleCase 1 ''OR-1'' (clock 9 0) None (Some 0) None) = clock 10 0
   \<and> cEnd (exampleCase 1 ''OR-1'' (clock 9 0) None (Some 45) None)
       = spec_effectiveEnd (exampleCase 1 ''OR-1'' (clock 9 0) None (Some 45) None)"
  using effective_interval
      [of "exampleCase 1 ''OR-1'' (clock 9 0) (Some (clock 10 0)) None None" "clock 10 0" 0]
    effective_interval [of "exampleCase 1 ''OR-1'' (clock 9 0) None (Some 45) None" 0 45]
    effective_interval [of "exampleCase 1 ''OR-1'' (clock 9 0) None (Some (- 30)) None" 0 "- 30"]
    effective_interval [of "exampleCase 1 ''OR-1'' (clock 9 0) None None None" 0 0]
    effective_interval [of "exampleCase 1 ''OR-1'' (clock 9 0) None (Some 0) None" 0 0]
  by (simp add: ex_simps)

subsection \<open>Self-exclusion\<close>

text \<open>
  Claim C5. Self-exclusion during edit: when the dialog edits the case \<open>x\<close>, neither
  callback is true on \<open>x\<close>, and both \<open>isSlotAvailable\<close> and \<open>getAvailableDoctors\<close> give
  the result they give on the case list with every case of the identifier of \<open>x\<close>
  removed.
\<close>

theorem self_exclusion:
  assumes "editCase props = Some x"
  shows "\<not> roomConflict (editCase props) r s e x
   \<and> \<not> doctorConflict (editCase props) doc s e x
   \<and> isSlotAvailable props r hour d =
       isSlotAvailable
         (props\<lparr>existingAndAllCases :=
                  filter (\<lambda>c. id_case c \<noteq> id_case x) (existingAndAllCases props)\<rparr>)
         r hour d
   \<and> getAvailableDoctors props st svc =
       getAvailableDoctors
         (props\<lparr>existingAndAllCases :=
                  filter (\<lambda>c. id_case c \<noteq> id_case x) (existingAndAllCases props)\<rparr>)
         st svc"
proof -
  let ?keep = "\<lambda>c. id_case c \<noteq> id_case x"
  let ?props = "props\<lparr>existingAndAllCases := filter ?keep (existingAndAllCases props)\<rparr>"
  have a: "\<not> roomConflict (editCase props) r s e x"
    using assms by (simp add: roomConflict_def isSelf_def)
  have b: "\<not> doctorConflict (editCase props) doc s e x"
    using assms by (simp add: doctorConflict_def isSelf_def)
  have free: "slotFree ?props r t u = slotFree props r t u" for t u
    using assms
    by (simp add: slotFree_def list_ex_filter_self roomConflict_def isSelf_def)
  have busy: "isBusy ?props dc t u = isBusy props dc t u" for dc t u
    using assms
    by (simp add: isBusy_def list_ex_filter_self doctorConflict_def isSelf_def)
  have c: "isSlotAvailable props r hour d = isSlotAvailable ?props r hour d"
    by (simp add: isSlotAvailable_def Let_def free)
  have d: "getAvailableDoctors props st svc = getAvailableDoctors ?props st svc"
    by (simp add: getAvailableDoctors_def Let_def busy split: option.splits rosterValue.splits)
  show ?thesis using a b c d by blast
qed

theorem self_exclusion_witness:
  "isSlotAvailable
     (exampleEditProps
        [exampleCase 7 ''OR-1'' (clock 9 0) (Some (clock 10 0)) None (Some ''Dr. A'')]
        (exampleCase 7 ''OR-1'' (clock 9 0) (Some (clock 10 0)) None (Some ''Dr. A'')))
     ''OR-1'' 9 60
   \<and> getAvailableDoctors
     (exampleEditProps
        [exampleCase 7 ''OR-1'' (clock 9 0) (Some (clock 10 0)) None (Some ''Dr. A'')]
        (exampleCase 7 ''OR-1'' (clock 9 0) (Some (clock 10 0)) None (Some ''Dr. A'')))
     (exampleState (Some 60) (Some \<lparr>slot_or = ''OR-1'', slot_hour = 9\<rparr>)
        [''General'' \<mapsto> [''Dr. A'', ''Dr. B'']])
     ''General'' = Inr (Doctors [''Dr. A'', ''Dr. B''])"
  using self_exclusion
    [of "exampleEditProps
        [exampleCase 7 ''OR-1'' (clock 9 0) (Some (clock 10 0)) None (Some ''Dr. A'')]
        (exampleCase 7 ''OR-1'' (clock 9 0) (Some (clock 10 0)) None (Some ''Dr. A''))"
        "exampleCase 7 ''OR-1'' (clock 9 0) (Some (clock 10 0)) None (Some ''Dr. A'')"
        "''OR-1''" 0 0 "''Dr. A''" 9 60
        "exampleState (Some 60) (Some \<lparr>slot_or = ''OR-1'', slot_hour = 9\<rparr>)
        [''General'' \<mapsto> [''Dr. A'', ''Dr. B'']]" "''General''"]
  by (simp add: ex_simps eval_simps getAvailableDoctors_def readRoster_def)

subsection \<open>Surgeon availability\<close>

text \<open>
  Claim C6. The surgeon check applies the overlap rule of the room check to the cases
  whose surgeon is the given one: \<open>isBusy\<close> holds exactly when some case other than the
  edited one has that surgeon and satisfies \<open>s < cEnd c\<close> and \<open>e > cStart c\<close>, and
  \<open>getAvailableDoctors\<close> keeps the surgeons of the roster that are not busy. A case
  without a surgeon is a conflict for nobody, and the room of a case plays no part.
  With a case of Dr. A from 10:00 to 11:00 in OR-2, Dr. A is busy for the candidate
  10:30 to 11:00 although OR-3 is free for it.
\<close>

theorem surgeon_check:
  "isBusy props doc s e =
     (\<exists>c \<in> set (existingAndAllCases props).
         Some (id_case c) \<noteq> map_option id_case (editCase props) \<and>
         doctor_name (extendedProps c) = Some doc \<and> s < cEnd c \<and> e > cStart c)
   \<and> (svc \<noteq> [] \<and> allDoctors st svc = Some doctors \<and> selectedSlot st = Some sel \<and>
        prediction st = Some p \<and> p \<noteq> 0 \<longrightarrow>
        getAvailableDoctors props st svc =
          Inr (Doctors
            (filter (\<lambda>doc. \<not> isBusy props doc (setHours (selectedDate props) (slot_hour sel))
                             (addMinutes (setHours (selectedDate props) (slot_hour sel)) p))
               doctors)))
   \<and> (doctor_name (extendedProps c) = None \<longrightarrow> \<not> doctorConflict ec doc s e c)
   \<and> doctorConflict ec doc s e (c\<lparr>extendedProps := (extendedProps c)\<lparr>or_suite := r'\<rparr>\<rparr>)
       = doctorConflict ec doc s e c
   \<and> (doctor_name (extendedProps c) = Some ''Dr. A'' \<and>
        or_suite (extendedProps c) = ''OR-2'' \<and> start c = setHours D 10 \<and>
        end_case c = Some (setHours D 11) \<and>
        props = \<lparr> selectedDate = D, existingAndAllCases = [c], editCase = None \<rparr>
        \<longrightarrow> isBusy props ''Dr. A'' (addMinutes (setHours D 10) 30)
              (addMinutes (addMinutes (setHours D 10) 30) 30)
            \<and> slotFree props ''OR-3'' (addMinutes (setHours D 10) 30)
              (addMinutes (addMinutes (setHours D 10) 30) 30))"
proof -
  have a: "isBusy props doc s e =
     (\<exists>c \<in> set (existingAndAllCases props).
         Some (id_case c) \<noteq> map_option id_case (editCase props) \<and>
         doctor_name (extendedProps c) = Some doc \<and> s < cEnd c \<and> e > cStart c)"
    by (simp add: isBusy_iff isSelf_iff)
  have b: "svc \<noteq> [] \<and> allDoctors st svc = Some doctors \<and> selectedSlot st = Some sel \<and>
        prediction st = Some p \<and> p \<noteq> 0 \<longrightarrow>
        getAvailableDoctors props st svc =
          Inr (Doctors
            (filter (\<lambda>doc. \<not> isBusy props doc (setHours (selectedDate props) (slot_hour sel))
                             (addMinutes (setHours (selectedDate props) (slot_hour sel)) p))
               doctors))"
    by (simp add: getAvailableDoctors_def readRoster_def truthy_def Let_def)
  have c: "doctor_name (extendedProps c) = None \<longrightarrow> \<not> doctorConflict ec doc s e c"
    by (simp add: doctorConflict_def)
  have d: "doctorConflict ec doc s e (c\<lparr>extendedProps := (extendedProps c)\<lparr>or_suite := r'\<rparr>\<rparr>)
       = doctorConflict ec doc s e c"
  proof -
    let ?c' = "c\<lparr>extendedProps := (extendedProps c)\<lparr>or_suite := r'\<rparr>\<rparr>"
    have "cStart ?c' = cStart c" by (simp add: cStart_def)
    moreover have "cEnd ?c' = cEnd c"
      by (simp add: cEnd_def cStart_def split: option.splits)
    moreover have "isSelf ec ?c' = isSelf ec c" by (simp add: isSelf_iff)
    ultimately show ?thesis by (simp add: doctorConflict_def)
  qed
  have e: "doctor_name (extendedProps c) = Some ''Dr. A'' \<and>
        or_suite (extendedProps c) = ''OR-2'' \<and> start c = setHours D 10 \<and>
        end_case c = Some (setHours D 11) \<and>
        props = \<lparr> selectedDate = D, existingAndAllCases = [c], editCase = None \<rparr>
        \<longrightarrow> isBusy props ''Dr. A'' (addMinutes (setHours D 10) 30)
              (addMinutes (addMinutes (setHours D 10) 30) 30)
            \<and> slotFree props ''OR-3'' (addMinutes (setHours D 10) 30)
              (addMinutes (addMinutes (setHours D 10) 30) 30)"
    by (simp add: eval_simps)
  show ?thesis using a b c d e by blast
qed

theorem surgeon_check_witness:
  "isBusy
     (exampleProps [exampleCase 1 ''OR-2'' (clock 10 0) (Some (clock 11 0)) None (Some ''Dr. A'')])
     ''Dr. A'' (clock 10 30) (clock 11 0)
   \<and> slotFree
     (exampleProps [exampleCase 1 ''OR-2'' (clock 10 0) (Some (clock 11 0)) None (Some ''Dr. A'')])
     ''OR-3'' (clock 10 30) (clock 11 0)
   \<and> getAvailableDoctors
     (exampleProps [exampleCase 1 ''OR-2'' (clock 10 0) (Some (clock 11 0)) None (Some ''Dr. A'')])
     (exampleState (Some 30) (Some \<lparr>slot_or = ''OR-3'', slot_hour = 10\<rparr>)
        [''General'' \<mapsto> [''Dr. A'', ''Dr. B'']])
     ''General'' = Inr (Doctors [''Dr. B''])
   \<and> isSlotAvailable
     (exampleProps [exampleCase 1 ''OR-2'' (clock 10 0) (Some (clock 11 0)) None (Some ''Dr. A'')])
     ''OR-3'' 10 30
   \<and> \<not> doctorConflict None ''Dr. A'' (clock 10 30) (clock 11 0)
        (exampleCase 1 ''OR-2'' (clock 10 0) (Some (clock 11 0)) None None)"
  using surgeon_check
    [of "exampleProps [exampleCase 1 ''OR-2'' (clock 10 0) (Some (clock 11 0)) None (Some ''Dr. A'')]"
        "''Dr. A''" "clock 10 30" "clock 11 0" "''General''"
        "exampleState (Some 30) (Some \<lparr>slot_or = ''OR-3'', slot_hour = 10\<rparr>)
           [''General'' \<mapsto> [''Dr. A'', ''Dr. B'']]"
        "[''Dr. A'', ''Dr. B'']" "\<lparr>slot_or = ''OR-3'', slot_hour = 10\<rparr>" 30
        "exampleCase 1 ''OR-2'' (clock 10 0) (Some (clock 11 0)) None None"
        None "''OR-3''" 0]
  by (simp add: ex_simps eval_simps getAvailableDoctors_def readRoster_def)

text \<open>
  Claim C7. For a chosen specialty with a roster: when no slot is selected, or the
  predicted duration is missing (or zero), \<open>getAvailableDoctors\<close> returns the whole
  roster in its order; the overlap filter is applied only when a slot and a duration
  are both present.
\<close>

theorem full_roster_without_slot_or_duration:
  assumes "svc \<noteq> []" and "allDoctors st svc = Some doctors"
  shows "(selectedSlot st = None \<or> prediction st = None \<or> prediction st = Some 0
            \<longrightarrow> getAvailableDoctors props st svc = Inr (Doctors doctors))
   \<and> (selectedSlot st = Some sel \<and> prediction st = Some p \<and> p \<noteq> 0
        \<longrightarrow> getAvailableDoctors props st svc =
              Inr (Doctors
                (filter (\<lambda>doc. \<not> isBusy props doc (setHours (selectedDate props) (slot_hour sel))
                          (addMinutes (setHours (selectedDate props) (slot_hour sel)) p))
                   doctors)))"
  using assms
  by (auto simp: getAvailableDoctors_def readRoster_def truthy_def Let_def
      split: option.splits)

theorem full_roster_without_slot_or_duration_witness:
  "getAvailableDoctors
     (exampleProps [exampleCase 1 ''OR-2'' (clock 10 0) (Some (clock 11 0)) None (Some ''Dr. A'')])
     (exampleState (Some 30) None [''General'' \<mapsto> [''Dr. A'', ''Dr. B'']])
     ''General'' = Inr (Doctors [''Dr. A'', ''Dr. B''])
   \<and> getAvailableDoctors
     (exampleProps [exampleCase 1 ''OR-2'' (clock 10 0) (Some (clock 11 0)) None (Some ''Dr. A'')])
     (exampleState None (Some \<lparr>slot_or = ''OR-3'', slot_hour = 10\<rparr>)
        [''General'' \<mapsto> [''Dr. A'', ''Dr. B'']])
     ''General'' = Inr (Doctors [''Dr. A'', ''Dr. B''])
   \<and> getAvailableDoctors
     (exampleProps [exampleCase 1 ''OR-2'' (clock 10 0) (Some (clock 11 0)) None (Some ''Dr. A'')])
     (exampleState (Some 30) (Some \<lparr>slot_or = ''OR-3'', slot_hour = 10\<rparr>)
        [''General'' \<mapsto> [''Dr. A'', ''Dr. B'']])
     ''General'' = Inr (Doctors [''Dr. B''])"
  using full_roster_without_slot_or_duration
    [of "''General''" "exampleState (Some 30) None [''General'' \<mapsto> [''Dr. A'', ''Dr. B'']]"
        "[''Dr. A'', ''Dr. B'']"
        "exampleProps [exampleCase 1 ''OR-2'' (clock 10 0) (Some (clock 11 0)) None (Some ''Dr. A'')]"
        "\<lparr>slot_or = ''OR-3'', slot_hour = 10\<rparr>" 30]
   full_roster_without_slot_or_duration
    [of "''General''" "exampleState None (Some \<lparr>slot_or = ''OR-3'', slot_hour = 10\<rparr>)
          [''General'' \<mapsto> [''Dr. A'', ''Dr. B'']]"
        "[''Dr. A'', ''Dr. B'']"
        "exampleProps [exampleCase 1 ''OR-2'' (clock 10 0) (Some (clock 11 0)) None (Some ''Dr. A'')]"
        "\<lparr>slot_or = ''OR-3'', slot_hour = 10\<rparr>" 30]
   full_roster_without_slot_or_duration
    [of "''General''" "exampleState (Some 30) (Some \<lparr>slot_or = ''OR-3'', slot_hour = 10\<rparr>)
          [''General'' \<mapsto> [''Dr. A'', ''Dr. B'']]"
        "[''Dr. A'', ''Dr. B'']"
        "exampleProps [exampleCase 1 ''OR-2'' (clock 10 0) (Some (clock 11 0)) None (Some ''Dr. A'')]"
        "\<lparr>slot_or = ''OR-3'', slot_hour = 10\<rparr>" 30]
  by (simp add: ex_simps eval_simps)

text \<open>
  Without a chosen specialty, and for a specialty that has no own entry in the roster
  and is not the name of an inherited member, the guard of \<open>getAvailableDoctors\<close>
  returns the empty list.
\<close>

lemma getAvailableDoctors_guard:
  "svc = [] \<or> (allDoctors st svc = None \<and> svc \<notin> set objectPrototypeMembers)
   \<Longrightarrow> getAvailableDoctors props st svc = Inr (Doctors [])"
  by (auto simp: getAvailableDoctors_def readRoster_def)

text \<open>
  Claim C10 says that for a chosen specialty without an entry in the roster mapping
  \<open>getAvailableDoctors\<close> returns the empty list and no error, for every slot, duration
  and case list. The code does not do so for the specialty \<open>constructor\<close> and an empty
  roster: the read \<open>allDoctors[service]\<close> finds the inherited member, the guard lets it
  pass, and the function returns that member while no slot is selected and throws a
  \<open>TypeError\<close> once a slot and a duration are present.
\<close>

theorem getAvailableDoctors_inherited_member:
  "getAvailableDoctors (exampleProps []) (exampleState None None Map.empty) ''constructor''
     = Inr (ProtoMember ''constructor'')
   \<and> getAvailableDoctors (exampleProps [])
       (exampleState (Some 30) (Some \<lparr>slot_or = ''OR-3'', slot_hour = 10\<rparr>) Map.empty)
       ''constructor''
     = Inl TypeError
   \<and> getAvailableDoctors (exampleProps []) (exampleState None None Map.empty) ''constructor''
     \<noteq> Inr (Doctors [])"
  by (simp add: getAvailableDoctors_def readRoster_def objectPrototypeMembers_def
      exampleState_def truthy_def)

subsection \<open>The slot grid\<close>

text \<open>
  Claim C8. For every duration and case list the grid has one button for each pair of
  the product of the four suites and the eleven hours 8 to 18, suite by suite and in
  ascending hours, each with the flag that \<open>isSlotAvailable\<close> gives; its flattening has
  44 entries, and it is a function of the props and the duration only. The panel shows
  this grid once a non-zero predicted duration is known.
\<close>

theorem slot_grid_enumeration:
  "concat (slotButtons props d)
     = map (\<lambda>(r, h). (r, h, isSlotAvailable props r h d)) (List.product OR_SUITES TIME_SLOTS)
   \<and> map (map (\<lambda>(r, h, a). (r, h))) (slotButtons props d)
       = map (\<lambda>r. map (\<lambda>h. (r, h)) TIME_SLOTS) OR_SUITES
   \<and> OR_SUITES = [''OR-1'', ''OR-2'', ''OR-3'', ''OR-4'']
   \<and> TIME_SLOTS = [8..18]
   \<and> length OR_SUITES = 4 \<and> length TIME_SLOTS = 11
   \<and> length (concat (slotButtons props d)) = 44
   \<and> distinct (List.product OR_SUITES TIME_SLOTS)
   \<and> sorted TIME_SLOTS
   \<and> (prediction st = Some p \<and> p \<noteq> 0 \<longrightarrow> slotPanel props st = Some (slotButtons props p))"
proof -
  have a: "concat (slotButtons props d)
     = map (\<lambda>(r, h). (r, h, isSlotAvailable props r h d)) (List.product OR_SUITES TIME_SLOTS)"
    unfolding slotButtons_def by (rule concat_map_product)
  have b: "map (map (\<lambda>(r, h, a). (r, h))) (slotButtons props d)
       = map (\<lambda>r. map (\<lambda>h. (r, h)) TIME_SLOTS) OR_SUITES"
    by (simp add: slotButtons_def comp_def)
  have c: "TIME_SLOTS = [8..18]"
    by (simp add: TIME_SLOTS_eq upto_rec_numeral)
  have d: "length OR_SUITES = 4" "length TIME_SLOTS = 11"
    by (simp_all add: OR_SUITES_def TIME_SLOTS_def)
  have e: "length (concat (slotButtons props d)) = 44"
    by (simp add: a d)
  have f: "distinct (List.product OR_SUITES TIME_SLOTS)"
    by (simp add: distinct_product OR_SUITES_def TIME_SLOTS_eq)
  have g: "sorted TIME_SLOTS" by (simp add: TIME_SLOTS_eq)
  have h: "prediction st = Some p \<and> p \<noteq> 0 \<longrightarrow>
      slotPanel props st = Some (slotButtons props p)"
    by (simp add: slotPanel_def truthy_def)
  show ?thesis using a b c d e f g h by (simp add: OR_SUITES_def)
qed

theorem slot_grid_enumeration_witness:
  "slotPanel
     (exampleProps [exampleCase 1 ''OR-1'' (clock 9 0) (Some (clock 10 0)) None None])
     (exampleState (Some 60) None Map.empty)
   = Some (slotButtons
       (exampleProps [exampleCase 1 ''OR-1'' (clock 9 0) (Some (clock 10 0)) None None]) 60)
   \<and> length (concat (slotButtons
       (exampleProps [exampleCase 1 ''OR-1'' (clock 9 0) (Some (clock 10 0)) None None]) 60))
     = 44
   \<and> take 3 (concat (slotButtons
       (exampleProps [exampleCase 1 ''OR-1'' (clock 9 0) (Some (clock 10 0)) None None]) 60))
     = [(''OR-1'', 8, True), (''OR-1'', 9, False), (''OR-1'', 10, True)]"
proof -
  let ?P = "exampleProps [exampleCase 1 ''OR-1'' (clock 9 0) (Some (clock 10 0)) None None]"
  let ?S = "exampleState (Some 60) None Map.empty"
  note grid = slot_grid_enumeration [of ?P 60 ?S 60]
  have p: "prediction ?S = Some 60 \<and> (60::int) \<noteq> 0"
    by (simp add: exampleState_def)
  have a: "slotPanel ?P ?S = Some (slotButtons ?P 60)"
    using grid p by blast
  have b: "length (concat (slotButtons ?P 60)) = 44"
    using grid by blast
  have c: "concat (slotButtons ?P 60)
     = map (\<lambda>(r, h). (r, h, isSlotAvailable ?P r h 60)) (List.product OR_SUITES TIME_SLOTS)"
    using grid by blast
  have d: "take 3 (concat (slotButtons ?P 60))
     = [(''OR-1'', 8, True), (''OR-1'', 9, False), (''OR-1'', 10, True)]"
    unfolding c by (simp add: OR_SUITES_def TIME_SLOTS_eq ex_simps eval_simps)
  show ?thesis using a b d by blast
qed

subsection \<open>Submission\<close>

text \<open>
  Claim C9, as stated, fails: with a case from 09:00 to 10:00 in OR-1 in the case
  list, the selected slot OR-1 at 9 with a duration of 60 minutes is not available,
  and \<open>onSubmit\<close> sends the request to the API.
\<close>

theorem stale_selection_counterexample:
  "\<not> isSlotAvailable
       (exampleProps [exampleCase 1 ''OR-1'' (clock 9 0) (Some (clock 10 0)) None None])
       ''OR-1'' 9 60
   \<and> sentToApi
       (onSubmit
          (exampleProps [exampleCase 1 ''OR-1'' (clock 9 0) (Some (clock 10 0)) None None])
          (exampleState (Some 60) (Some \<lparr>slot_or = ''OR-1'', slot_hour = 9\<rparr>) Map.empty)
          exampleValues)"
  by (simp add: ex_simps eval_simps onSubmit_def)

text \<open>
  Claim C9, amended. Before submission \<open>onSubmit\<close> checks only that a slot is selected
  and that a non-zero predicted duration is known: the submission is rejected locally
  exactly when one of them is missing. Otherwise the request (an update in edit mode, a
  creation else) is sent to the API for the selected suite and hour; the case list
  plays no part, so the slot is not validated against it.
\<close>

theorem onSubmit_checks_only_slot_and_duration:
  "sentToApi (onSubmit props st vals) = (selectedSlot st \<noteq> None \<and> truthy (prediction st))
   \<and> onSubmit (props\<lparr>existingAndAllCases := cs\<rparr>) st vals = onSubmit props st vals
   \<and> (selectedSlot st = Some sel \<and> prediction st = Some p \<and> p \<noteq> 0 \<longrightarrow>
        (\<exists>pl. (onSubmit props st vals =
                 (case editCase props of Some e \<Rightarrow> UpdateCase (id_case e) pl
                                       | None \<Rightarrow> CreateCase pl))
             \<and> p_or_suite pl = slot_or sel
             \<and> p_wheels_in pl = setHours (selectedDate props) (slot_hour sel)
             \<and> p_wheels_out pl = addMinutes (setHours (selectedDate props) (slot_hour sel)) p
             \<and> p_duration pl = p))"
  by (auto simp: onSubmit_def truthy_def Let_def split: option.splits)

theorem onSubmit_checks_only_slot_and_duration_witness:
  "sentToApi
       (onSubmit
          (exampleProps [exampleCase 1 ''OR-1'' (clock 9 0) (Some (clock 10 0)) None None])
          (exampleState (Some 60) (Some \<lparr>slot_or = ''OR-1'', slot_hour = 9\<rparr>) Map.empty)
          exampleValues)
   \<and> \<not> sentToApi
       (onSubmit
          (exampleProps [exampleCase 1 ''OR-1'' (clock 9 0) (Some (clock 10 0)) None None])
          (exampleState None (Some \<lparr>slot_or = ''OR-1'', slot_hour = 9\<rparr>) Map.empty)
          exampleValues)"
  using onSubmit_checks_only_slot_and_duration
    [of "exampleProps [exampleCase 1 ''OR-1'' (clock 9 0) (Some (clock 10 0)) None None]"
        "exampleState (Some 60) (Some \<lparr>slot_or = ''OR-1'', slot_hour = 9\<rparr>) Map.empty"
        exampleValues "[]" "\<lparr>slot_or = ''OR-1'', slot_hour = 9\<rparr>" 60]
    onSubmit_checks_only_slot_and_duration
    [of "exampleProps [exampleCase 1 ''OR-1'' (clock 9 0) (Some (clock 10 0)) None None]"
        "exampleState None (Some \<lparr>slot_or = ''OR-1'', slot_hour = 9\<rparr>) Map.empty"
        exampleValues "[]" "\<lparr>slot_or = ''OR-1'', slot_hour = 9\<rparr>" 60]
  by (simp add: ex_simps truthy_def)

end
